theory Spec2Isabelle
  imports Complex_Main "HOL-Library.Word"
begin

section \<open>Data model\<close>

text \<open>
  An audio item is the JavaScript object built by \<^verbatim>\<open>AudioLibrary.createAudioItem\<close>,
  \<^verbatim>\<open>AudioLibrary.createMusicItem\<close> and \<^verbatim>\<open>PlaylistGenerator.createFallbackItem\<close>.
  A field that may be \<^verbatim>\<open>null\<close> or \<^verbatim>\<open>undefined\<close> is an option; the three gapless
  flags are \<^verbatim>\<open>undefined\<close> (falsy) until \<^verbatim>\<open>createGaplessSequence\<close> sets them.
  Durations and start times are integral numbers of milliseconds.
\<close>

record item =
  path :: "string option"
  title :: string
  artist :: "string option"
  type :: string
  duration :: int
  startTime :: "int option"
  isGaplessStart :: bool
  isGaplessEnd :: bool
  isGapless :: bool

text \<open>The pools of \<^verbatim>\<open>AudioLibrary.library\<close> that the playlist generator draws from.\<close>

record library =
  music :: "item list"
  jingles :: "item list"
  ads :: "item list"
  intros :: "item list"
  outros :: "item list"
  solos :: "item list"
  ids :: "item list"
  transitions :: "string \<Rightarrow> item list option"

text \<open>
  The two sources of nondeterminism are oracles: \<open>draws env k\<close> is the value of the
  \<open>k\<close>-th call of \<^verbatim>\<open>Math.random()\<close> (a number in \<open>[0, 1)\<close>) and \<open>ticks env k\<close> the value
  of the \<open>k\<close>-th call of \<^verbatim>\<open>Date.now()\<close>. The generator state counts how many of each
  have been consumed, next to the fields of the \<^verbatim>\<open>PlaylistGenerator\<close> object.
\<close>

record env =
  draws :: "nat \<Rightarrow> real"
  ticks :: "nat \<Rightarrow> int"

record generator =
  lastPlayedMusic :: "string list"
  maxHistorySize :: nat
  draws_used :: nat
  ticks_used :: nat

definition Math_random :: "env \<Rightarrow> generator \<Rightarrow> real \<times> generator" where
  "Math_random e g = (draws e (draws_used g), g\<lparr>draws_used := draws_used g + 1\<rparr>)"

definition Date_now :: "env \<Rightarrow> generator \<Rightarrow> int \<times> generator" where
  "Date_now e g = (ticks e (ticks_used g), g\<lparr>ticks_used := ticks_used g + 1\<rparr>)"

text \<open>The state of a freshly constructed \<^verbatim>\<open>PlaylistGenerator\<close>.\<close>

definition new_generator :: generator where
  "new_generator = \<lparr>lastPlayedMusic = [], maxHistorySize = 20, draws_used = 0, ticks_used = 0\<rparr>"

section \<open>Content catalog: random draws\<close>

text \<open>
  \<^verbatim>\<open>getRandomFrom(array)\<close>: \<^verbatim>\<open>null\<close> on an empty pool, without drawing; otherwise a copy
  of the element at index \<^verbatim>\<open>Math.floor(Math.random() * array.length)\<close>. A draw lies in
  \<open>[0, 1)\<close>, so the index is below the length.
\<close>

definition getRandomFrom :: "env \<Rightarrow> generator \<Rightarrow> item list \<Rightarrow> item option \<times> generator" where
  "getRandomFrom e g array =
     (if length array = 0 then (None, g)
      else (let (r, g') = Math_random e g
            in (Some (array ! nat \<lfloor>r * real (length array)\<rfloor>), g')))"

definition getRandomMusic :: "env \<Rightarrow> library \<Rightarrow> generator \<Rightarrow> item option \<times> generator" where
  "getRandomMusic e lib g = getRandomFrom e g (music lib)"

definition getRandomJingle :: "env \<Rightarrow> library \<Rightarrow> generator \<Rightarrow> item option \<times> generator" where
  "getRandomJingle e lib g = getRandomFrom e g (jingles lib)"

definition getRandomDJIntro :: "env \<Rightarrow> library \<Rightarrow> generator \<Rightarrow> item option \<times> generator" where
  "getRandomDJIntro e lib g = getRandomFrom e g (intros lib)"

definition getRandomDJOutro :: "env \<Rightarrow> library \<Rightarrow> generator \<Rightarrow> item option \<times> generator" where
  "getRandomDJOutro e lib g = getRandomFrom e g (outros lib)"

definition getRandomDJSolo :: "env \<Rightarrow> library \<Rightarrow> generator \<Rightarrow> item option \<times> generator" where
  "getRandomDJSolo e lib g = getRandomFrom e g (solos lib)"

definition getRandomDJID :: "env \<Rightarrow> library \<Rightarrow> generator \<Rightarrow> item option \<times> generator" where
  "getRandomDJID e lib g = getRandomFrom e g (ids lib)"

definition getRandomAd :: "env \<Rightarrow> library \<Rightarrow> generator \<Rightarrow> item option \<times> generator" where
  "getRandomAd e lib g = getRandomFrom e g (ads lib)"

text \<open>\<^verbatim>\<open>this.library.dj.transitions[transitionType] || []\<close>\<close>

definition getRandomDJTransition ::
  "env \<Rightarrow> library \<Rightarrow> generator \<Rightarrow> string \<Rightarrow> item option \<times> generator" where
  "getRandomDJTransition e lib g transitionType =
     getRandomFrom e g (case transitions lib transitionType of None \<Rightarrow> [] | Some pool \<Rightarrow> pool)"

section \<open>Playlist generator\<close>

definition fallbackItem :: "int \<Rightarrow> item" where
  "fallbackItem now =
     \<lparr>path = None, title = ''Radio Station'', artist = Some ''On Air'', type = ''station-id'',
      duration = 5000, startTime = Some now,
      isGaplessStart = False, isGaplessEnd = False, isGapless = False\<rparr>"

definition createFallbackItem :: "env \<Rightarrow> generator \<Rightarrow> item \<times> generator" where
  "createFallbackItem e g = (let (now, g') = Date_now e g in (fallbackItem now, g'))"

definition wasRecentlyPlayed :: "generator \<Rightarrow> string \<Rightarrow> bool" where
  "wasRecentlyPlayed g t = (t \<in> set (lastPlayedMusic g))"

definition addToHistory :: "generator \<Rightarrow> string \<Rightarrow> generator" where
  "addToHistory g t =
     (let pushed = lastPlayedMusic g @ [t]
      in g\<lparr>lastPlayedMusic :=
             (if length pushed > maxHistorySize g then tl pushed else pushed)\<rparr>)"

text \<open>
  \<^verbatim>\<open>createMusic\<close> calls itself when the drawn title is in the history, with no bound on
  the number of attempts. The recursion is not well-founded, so the model lives in the
  option monad: \<open>None\<close> is a call that never returns (in JavaScript the stack is
  exhausted).
\<close>

partial_function (option) createMusic ::
  "env \<Rightarrow> library \<Rightarrow> generator \<Rightarrow> (item \<times> generator) option" where
  "createMusic e lib g =
     (case getRandomMusic e lib g of
        (None, g1) \<Rightarrow> Some (createFallbackItem e g1)
      | (Some m, g1) \<Rightarrow>
          if wasRecentlyPlayed g1 (title m) then createMusic e lib g1
          else (let g2 = addToHistory g1 (title m);
                    (now, g3) = Date_now e g2
                in Some (m\<lparr>startTime := Some now\<rparr>, g3)))"

declare createMusic.simps [code]

text \<open>
  \<^verbatim>\<open>createGaplessSequence\<close> on a list of freshly created objects. Every caller inside
  the generator passes copies made by \<^verbatim>\<open>getRandomFrom\<close> or a new filler object, so no two
  members are the same object and the in-place updates act on each member separately.
  The store-based model of the same method, for arbitrary references, is in the
  section on gapless sequences.
\<close>

fun stamp :: "int \<Rightarrow> item list \<Rightarrow> item list" where
  "stamp currentTime [] = []"
| "stamp currentTime (x # xs) =
     x\<lparr>startTime := Some currentTime, isGapless := True\<rparr> # stamp (currentTime + duration x) xs"

definition createGaplessSequence_fresh ::
  "env \<Rightarrow> generator \<Rightarrow> item list \<Rightarrow> item list \<times> generator" where
  "createGaplessSequence_fresh e g items =
     (if length items \<le> 1 then (items, g)
      else (let items1 = items[0 := (items ! 0)\<lparr>isGaplessStart := True\<rparr>];
                n = length items1 - 1;
                items2 = items1[n := (items1 ! n)\<lparr>isGaplessEnd := True\<rparr>];
                (currentTime, g') = Date_now e g
            in (stamp currentTime items2, g')))"

definition createMusicWithIntro ::
  "env \<Rightarrow> library \<Rightarrow> generator \<Rightarrow> (item list \<times> generator) option" where
  "createMusicWithIntro e lib g =
     (let (intro, g1) = getRandomDJIntro e lib g
      in case createMusic e lib g1 of
           None \<Rightarrow> None
         | Some (m, g2) \<Rightarrow>
             (case intro of
                None \<Rightarrow> Some ([m], g2)
              | Some i \<Rightarrow> Some (createGaplessSequence_fresh e g2 [i, m])))"

definition createMusicWithOutro ::
  "env \<Rightarrow> library \<Rightarrow> generator \<Rightarrow> (item list \<times> generator) option" where
  "createMusicWithOutro e lib g =
     (case createMusic e lib g of
        None \<Rightarrow> None
      | Some (m, g1) \<Rightarrow>
          (let (outro, g2) = getRandomDJOutro e lib g1
           in case outro of
                None \<Rightarrow> Some ([m], g2)
              | Some out \<Rightarrow> Some (createGaplessSequence_fresh e g2 [m, out])))"

definition createDJSolo :: "env \<Rightarrow> library \<Rightarrow> generator \<Rightarrow> item \<times> generator" where
  "createDJSolo e lib g =
     (case getRandomDJSolo e lib g of
        (None, g1) \<Rightarrow> createFallbackItem e g1
      | (Some solo, g1) \<Rightarrow>
          (let (now, g2) = Date_now e g1 in (solo\<lparr>startTime := Some now\<rparr>, g2)))"

definition createJingle :: "env \<Rightarrow> library \<Rightarrow> generator \<Rightarrow> item \<times> generator" where
  "createJingle e lib g =
     (case getRandomJingle e lib g of
        (None, g1) \<Rightarrow> createFallbackItem e g1
      | (Some jingle, g1) \<Rightarrow>
          (let (now, g2) = Date_now e g1 in (jingle\<lparr>startTime := Some now\<rparr>, g2)))"

definition createStationID :: "env \<Rightarrow> library \<Rightarrow> generator \<Rightarrow> item \<times> generator" where
  "createStationID e lib g =
     (case getRandomDJID e lib g of
        (None, g1) \<Rightarrow> createFallbackItem e g1
      | (Some station, g1) \<Rightarrow>
          (let (now, g2) = Date_now e g1 in (station\<lparr>startTime := Some now\<rparr>, g2)))"

text \<open>
  \<^verbatim>\<open>determineContentType(position)\<close>. The first draw is the weighted choice; the second
  draw, the period of the station id, is only made when \<^verbatim>\<open>position > 0\<close> (the
  conjunction short-circuits). The thresholds are the decimal literals of the source.
\<close>

definition determineContentType :: "env \<Rightarrow> generator \<Rightarrow> nat \<Rightarrow> string \<times> generator" where
  "determineContentType e g position =
     (let (rand, g1) = Math_random e g;
          (forced, g2) =
             (if position > 0
              then (let (r, g') = Math_random e g1
                    in (int position mod (5 + \<lfloor>r * 3\<rfloor>) = 0, g'))
              else (False, g1))
      in (if forced then ''station-id''
          else if rand < 1 / 10 then ''jingle''
          else if rand < 15 / 100 then ''dj-solo''
          else if rand < 3 / 10 then ''music-with-intro''
          else if rand < 4 / 10 then ''music-with-outro''
          else ''music-solo'', g2))"

text \<open>
  The \<^verbatim>\<open>switch\<close> of \<^verbatim>\<open>generatePlaylist\<close>: the items that one position pushes onto the
  playlist. The two sequence builders are spread into the playlist
  (\<^verbatim>\<open>playlist.push(...introSequence)\<close>), so the playlist is a flat list of items.
\<close>

definition buildContent ::
  "env \<Rightarrow> library \<Rightarrow> generator \<Rightarrow> string \<Rightarrow> (item list \<times> generator) option" where
  "buildContent e lib g contentType =
     (if contentType = ''music-with-intro'' then createMusicWithIntro e lib g
      else if contentType = ''music-with-outro'' then createMusicWithOutro e lib g
      else if contentType = ''music-solo'' then
        map_option (\<lambda>(m, g'). ([m], g')) (createMusic e lib g)
      else if contentType = ''dj-solo'' then
        (let (x, g') = createDJSolo e lib g in Some ([x], g'))
      else if contentType = ''jingle'' then
        (let (x, g') = createJingle e lib g in Some ([x], g'))
      else if contentType = ''station-id'' then
        (let (x, g') = createStationID e lib g in Some ([x], g'))
      else map_option (\<lambda>(m, g'). ([m], g')) (createMusic e lib g))"

function generatePlaylist_loop ::
  "env \<Rightarrow> library \<Rightarrow> nat \<Rightarrow> nat \<Rightarrow> item list \<Rightarrow> generator \<Rightarrow> (item list \<times> generator) option" where
  "generatePlaylist_loop e lib count i playlist g =
     (if i < count
      then (let (contentType, g1) = determineContentType e g i
            in case buildContent e lib g1 contentType of
                 None \<Rightarrow> None
               | Some (pushed, g2) \<Rightarrow>
                   generatePlaylist_loop e lib count (Suc i) (playlist @ pushed) g2)
      else Some (playlist, g))"
  by pat_completeness auto
termination
  by (relation "measure (\<lambda>(e, lib, count, i, playlist, g). count - i)") auto

declare generatePlaylist_loop.simps [simp del]

definition generatePlaylist ::
  "env \<Rightarrow> library \<Rightarrow> generator \<Rightarrow> nat \<Rightarrow> (item list \<times> generator) option" where
  "generatePlaylist e lib g count = generatePlaylist_loop e lib count 0 [] g"

text \<open>\<^verbatim>\<open>createAdSegment\<close>: the loop over \<^verbatim>\<open>i < adCount\<close>, then the method itself.\<close>

function createAdSegment_loop ::
  "env \<Rightarrow> library \<Rightarrow> int \<Rightarrow> nat \<Rightarrow> item list \<Rightarrow> generator \<Rightarrow> item list \<times> generator" where
  "createAdSegment_loop e lib adCount i segment g =
     (if int i < adCount
      then (let (ad, g1) = getRandomAd e lib g
            in createAdSegment_loop e lib adCount (Suc i)
                 (case ad of Some a \<Rightarrow> segment @ [a] | None \<Rightarrow> segment) g1)
      else (segment, g))"
  by pat_completeness auto
termination
  by (relation "measure (\<lambda>(e, lib, adCount, i, segment, g). nat (adCount - int i))") auto

declare createAdSegment_loop.simps [simp del]

definition createAdSegment :: "env \<Rightarrow> library \<Rightarrow> generator \<Rightarrow> item list \<times> generator" where
  "createAdSegment e lib g =
     (let (transition, g1) = getRandomDJTransition e lib g ''TO_AD'';
          segment = (case transition of Some t \<Rightarrow> [t] | None \<Rightarrow> []);
          (r, g2) = Math_random e g1;
          adCount = \<lfloor>r * 2\<rfloor> + 1;
          (segment', g3) = createAdSegment_loop e lib adCount 0 segment g2
      in if length segment' > 1 then createGaplessSequence_fresh e g3 segment'
         else if length segment' > 0 then (segment', g3)
         else (let (filler, g4) = createFallbackItem e g3 in ([filler], g4)))"

section \<open>Playback scheduler: the queue and its projection\<close>

text \<open>
  A queue entry is what \<^verbatim>\<open>scheduleNext\<close> tells apart with \<^verbatim>\<open>Array.isArray\<close>: one item,
  or an array of items. \<^verbatim>\<open>generatePlaylist\<close> fills the queue with single items;
  \<^verbatim>\<open>scheduleAdBreak\<close> and \<^verbatim>\<open>scheduleWeatherSegment\<close> put the array returned by the
  segment builder at the front, as one entry.
\<close>

datatype entry = Track item | Sequence "item list"

record scheduler =
  queue :: "entry list"
  playlistGenerator :: generator

definition scheduleAdBreak :: "env \<Rightarrow> library \<Rightarrow> scheduler \<Rightarrow> scheduler" where
  "scheduleAdBreak e lib s =
     (let (adSegment, g') = createAdSegment e lib (playlistGenerator s)
      in s\<lparr>queue := Sequence adSegment # queue s, playlistGenerator := g'\<rparr>)"

text \<open>
  One record of the \<^verbatim>\<open>getUpcoming\<close> projection. \<open>None\<close> is \<^verbatim>\<open>undefined\<close>: reading
  \<^verbatim>\<open>.title\<close>, \<^verbatim>\<open>.artist\<close>, \<^verbatim>\<open>.type\<close> or \<^verbatim>\<open>.duration\<close> of an array gives \<^verbatim>\<open>undefined\<close>.
\<close>

record upcoming =
  up_title :: "string option"
  up_artist :: "string option"
  up_type :: "string option"
  up_duration :: "int option"

fun project :: "entry \<Rightarrow> upcoming" where
  "project (Track track) =
     \<lparr>up_title = Some (title track), up_artist = artist track,
      up_type = Some (type track), up_duration = Some (duration track)\<rparr>"
| "project (Sequence tracks) =
     \<lparr>up_title = None, up_artist = None, up_type = None, up_duration = None\<rparr>"

definition getUpcoming :: "scheduler \<Rightarrow> upcoming list" where
  "getUpcoming s = map project (take 5 (queue s))"

section \<open>Gapless sequences on shared objects\<close>

text \<open>
  \<^verbatim>\<open>createGaplessSequence(items)\<close> updates the objects of the array in place. An array
  holds references, and the same object may occur at two positions; the store maps a
  reference to the object it denotes. \<open>now\<close> is the value of the single \<^verbatim>\<open>Date.now()\<close>
  call.
\<close>

type_synonym ref = nat
type_synonym store = "ref \<Rightarrow> item"

text \<open>The \<^verbatim>\<open>forEach\<close> callback, run over the array with the running \<^verbatim>\<open>currentTime\<close>.\<close>

fun forEach_item :: "ref list \<Rightarrow> int \<Rightarrow> store \<Rightarrow> store" where
  "forEach_item [] currentTime h = h"
| "forEach_item (r # rs) currentTime h =
     (let h' = h(r := (h r)\<lparr>startTime := Some currentTime, isGapless := True\<rparr>)
      in forEach_item rs (currentTime + duration (h' r)) h')"

definition createGaplessSequence :: "int \<Rightarrow> ref list \<Rightarrow> store \<Rightarrow> ref list \<times> store" where
  "createGaplessSequence now items h =
     (if length items \<le> 1 then (items, h)
      else (let first = items ! 0;
                h1 = h(first := (h first)\<lparr>isGaplessStart := True\<rparr>);
                final = items ! (length items - 1);
                h2 = h1(final := (h1 final)\<lparr>isGaplessEnd := True\<rparr>)
            in (items, forEach_item items now h2)))"

section \<open>Broadcast engine\<close>

text \<open>
  A sink is an HTTP response object: its identity, its \<^verbatim>\<open>destroyed\<close> flag and whether
  \<^verbatim>\<open>write\<close> throws on it. A spawned pipeline is described by the input the ffmpeg
  process reads; its process id is its position in the list of spawned pipelines, and
  the stream read from its standard output carries the same number.
\<close>

type_synonym byte = "8 word"

record sink =
  sink_id :: nat
  destroyed :: bool
  write_throws :: bool

datatype pipeline = Transcode string | ConcatList string | RawPCM

datatype error = RangeError | SpawnError | WriteFileError

text \<open>
  The fields of a \<^verbatim>\<open>StreamManager\<close> object, followed by what it has done to the outside
  world: the pipelines spawned, the processes killed, the pipes from a stream to a sink,
  and the data written to the standard input of a process.
\<close>

record streamManager =
  clients :: "sink list"
  currentStream :: "nat option"
  ffmpegProcess :: "nat option"
  spawned :: "pipeline list"
  killed :: "nat list"
  piped :: "(nat \<times> nat) list"
  stdin_written :: "(nat \<times> byte list) list"

text \<open>
  An \<^verbatim>\<open>EnhancedStreamManager\<close> has the same fields and also the current track, the
  concat file of the running pipeline, the packets written to sinks with
  \<^verbatim>\<open>client.write\<close> and the files written.
\<close>

record enhancedStreamManager = streamManager +
  currentTrack :: "item option"
  currentConcatFile :: "string option"
  written :: "(nat \<times> byte list) list"
  files :: "(string \<times> string) list"

text \<open>
  What the host decides: whether \<^verbatim>\<open>spawn\<close> throws, whether \<^verbatim>\<open>fs.writeFile\<close> rejects, the
  name of the concat file (built from \<^verbatim>\<open>Date.now()\<close>) and the largest size
  \<^verbatim>\<open>Buffer.alloc\<close> accepts.
\<close>

record host =
  spawn_throws :: bool
  writeFile_rejects :: bool
  concat_name :: string
  kMaxLength :: nat

text \<open>\<^verbatim>\<open>StreamManager.stopCurrentStream\<close>: kill the running process, drop the stream.\<close>

definition stopCurrentStream :: "'a streamManager_scheme \<Rightarrow> 'a streamManager_scheme" where
  "stopCurrentStream s =
     (let s1 = (case ffmpegProcess s of
                  Some p \<Rightarrow> s\<lparr>killed := killed s @ [p], ffmpegProcess := None\<rparr>
                | None \<Rightarrow> s)
      in s1\<lparr>currentStream := None\<rparr>)"

text \<open>
  Modelled from the spec: \<^verbatim>\<open>EnhancedStreamManager.stopCurrentStream\<close>, which the class
  calls in \<^verbatim>\<open>playTrack\<close>, \<^verbatim>\<open>playGaplessSequence\<close> and \<^verbatim>\<open>playFallbackAudio\<close> but does not
  define in the source. The spec has \<^emph>\<open>tears down any running pipeline\<close>; that is the
  method of the same name of \<^verbatim>\<open>StreamManager\<close>.
\<close>

definition enhanced_stopCurrentStream :: "enhancedStreamManager \<Rightarrow> enhancedStreamManager" where
  "enhanced_stopCurrentStream s = stopCurrentStream s"

text \<open>
  \<^verbatim>\<open>setupStreamPiping\<close>: the current stream is piped to every sink that is not
  destroyed. \<^verbatim>\<open>StreamManager\<close> has the same loop inline. Every caller has just set the
  current stream.
\<close>

definition setupStreamPiping :: "'a streamManager_scheme \<Rightarrow> 'a streamManager_scheme" where
  "setupStreamPiping s =
     (case currentStream s of
        None \<Rightarrow> s
      | Some stream \<Rightarrow>
          s\<lparr>piped := piped s @ map (\<lambda>c. (stream, sink_id c))
                                 (filter (\<lambda>c. \<not> destroyed c) (clients s))\<rparr>)"

subsection \<open>The fallback tone of \<^verbatim>\<open>StreamManager\<close>\<close>

text \<open>
  Sample \<open>i\<close> of the 440 Hz sine at amplitude 0.1, scaled to 16 bits. The source computes
  it in double precision; the model uses the real sine.
\<close>

definition tone :: "nat \<Rightarrow> int" where
  "tone i = \<lfloor>sin (2 * pi * 440 * real i / 44100) * (1 / 10) * 32767\<rfloor>"

text \<open>\<^verbatim>\<open>writeInt16LE\<close>: the two bytes of a 16-bit two's complement value, low byte first.\<close>

definition int16LE :: "int \<Rightarrow> byte list" where
  "int16LE v = (let w = (word_of_int v :: 16 word) in [ucast w, ucast (drop_bit 8 w)])"

definition audioBuffer :: "nat \<Rightarrow> byte list" where
  "audioBuffer samples = concat (map (\<lambda>i. int16LE (tone i) @ int16LE (tone i)) [0..<samples])"

text \<open>
  \<^verbatim>\<open>StreamManager.playFallbackAudio(track)\<close>. \<^verbatim>\<open>track.duration || 30000\<close> takes the default
  for a duration of zero; \<^verbatim>\<open>Buffer.alloc\<close> throws on a negative or too large size.
\<close>

definition playFallbackAudio :: "host \<Rightarrow> streamManager \<Rightarrow> item \<Rightarrow> error + streamManager" where
  "playFallbackAudio hst s track =
     (let s1 = stopCurrentStream s;
          duration' = (if duration track = 0 then 30000 else duration track);
          sampleRate = 44100;
          samples = duration' * sampleRate div 1000
      in if samples * 4 < 0 \<or> samples * 4 > int (kMaxLength hst) then Inl RangeError
         else if spawn_throws hst then Inl SpawnError
         else (let pid = length (spawned s1);
                   s2 = s1\<lparr>spawned := spawned s1 @ [RawPCM], ffmpegProcess := Some pid,
                          currentStream := Some pid\<rparr>;
                   s3 = setupStreamPiping s2
               in Inr (s3\<lparr>stdin_written := stdin_written s3 @ [(pid, audioBuffer (nat samples))]\<rparr>)))"

subsection \<open>\<^verbatim>\<open>EnhancedStreamManager\<close>\<close>

text \<open>
  The metadata text \<^verbatim>\<open>StreamTitle='artist - title';\<close>. A string of the model is the
  UTF-8 byte sequence of the JavaScript string, so that its length is the length of
  \<^verbatim>\<open>Buffer.from(metadataString, 'utf8')\<close>. An empty title is falsy and becomes
  \<^verbatim>\<open>Unknown\<close>; an absent or empty artist gives no prefix.
\<close>

definition metadataString :: "item \<Rightarrow> string" where
  "metadataString track =
     (let title' = (if title track = [] then ''Unknown'' else title track);
          artist' = (case artist track of None \<Rightarrow> [] | Some a \<Rightarrow> a)
      in ''StreamTitle='' @ [CHR 0x27] @ (if artist' \<noteq> [] then artist' @ '' - '' else [])
           @ title' @ [CHR 0x27] @ '';'')"

text \<open>
  The packet of \<^verbatim>\<open>sendICYMetadata\<close>: \<^verbatim>\<open>Buffer.from([metadataLength])\<close> keeps the low eight
  bits of the number, \<^verbatim>\<open>Buffer.alloc\<close> fills with zeros and \<^verbatim>\<open>copy\<close> writes the text at
  the start.
\<close>

definition icyPacket :: "item \<Rightarrow> byte list" where
  "icyPacket track =
     (let metadataBuffer = map of_char (metadataString track) :: byte list;
          metadataLength = (length metadataBuffer + 15) div 16;
          paddedMetadata = metadataBuffer @ replicate (metadataLength * 16 - length metadataBuffer) 0
      in word_of_nat metadataLength # paddedMetadata)"

definition sendICYMetadata :: "enhancedStreamManager \<Rightarrow> sink \<Rightarrow> enhancedStreamManager" where
  "sendICYMetadata s client =
     (case currentTrack s of
        None \<Rightarrow> s
      | Some track \<Rightarrow>
          if write_throws client then s
          else s\<lparr>written := written s @ [(sink_id client, icyPacket track)]\<rparr>)"

definition broadcastICYMetadata :: "enhancedStreamManager \<Rightarrow> enhancedStreamManager" where
  "broadcastICYMetadata s =
     (case currentTrack s of
        None \<Rightarrow> s
      | Some track \<Rightarrow>
          fold (\<lambda>client s'. if \<not> destroyed client then sendICYMetadata s' client else s')
            (clients s) s)"

text \<open>
  \<^verbatim>\<open>EnhancedStreamManager.playFallbackAudio(track)\<close>: a log line and
  \<^verbatim>\<open>this.stopCurrentStream()\<close>, nothing else.
\<close>

definition enhanced_playFallbackAudio ::
  "enhancedStreamManager \<Rightarrow> item \<Rightarrow> enhancedStreamManager" where
  "enhanced_playFallbackAudio s track = enhanced_stopCurrentStream s"

text \<open>
  \<^verbatim>\<open>createAudioStream\<close> and \<^verbatim>\<open>createConcatStream\<close>: spawn, take the standard output as the
  current stream, pipe it to the sinks. The handlers they register run on later events
  and change nothing during the call.
\<close>

definition createAudioStream ::
  "host \<Rightarrow> enhancedStreamManager \<Rightarrow> string \<Rightarrow> error + enhancedStreamManager" where
  "createAudioStream hst s trackPath =
     (if spawn_throws hst then Inl SpawnError
      else (let pid = length (spawned s);
                s1 = s\<lparr>spawned := spawned s @ [Transcode trackPath], ffmpegProcess := Some pid,
                       currentStream := Some pid\<rparr>
            in Inr (setupStreamPiping s1)))"

definition createConcatStream ::
  "host \<Rightarrow> enhancedStreamManager \<Rightarrow> string \<Rightarrow> error + enhancedStreamManager" where
  "createConcatStream hst s concatFile =
     (if spawn_throws hst then Inl SpawnError
      else (let pid = length (spawned s);
                s1 = s\<lparr>spawned := spawned s @ [ConcatList concatFile], ffmpegProcess := Some pid,
                       currentStream := Some pid, currentConcatFile := Some concatFile\<rparr>
            in Inr (setupStreamPiping s1)))"

text \<open>One line of the concat file: \<^verbatim>\<open>file '<path>'\<close> with every quote of the path escaped.\<close>

definition concatLine :: "string \<Rightarrow> string" where
  "concatLine p =
     ''file '' @ [CHR 0x27]
       @ concat (map (\<lambda>c. if c = CHR 0x27 then [CHR 0x27, CHR 0x5C, CHR 0x27, CHR 0x27] else [c]) p)
       @ [CHR 0x27, CHR 0x0A]"

definition createConcatFile ::
  "host \<Rightarrow> enhancedStreamManager \<Rightarrow> item list \<Rightarrow> error + (string \<times> enhancedStreamManager)" where
  "createConcatFile hst s tracks =
     (let concatFile = concat_name hst;
          concatContent =
            concat (map (\<lambda>track. concatLine (case path track of Some p \<Rightarrow> p | None \<Rightarrow> []))
              (filter (\<lambda>track. path track \<noteq> None \<and> path track \<noteq> Some []) tracks))
      in if writeFile_rejects hst then Inl WriteFileError
         else Inr (concatFile, s\<lparr>files := files s @ [(concatFile, concatContent)]\<rparr>))"

definition playTrack :: "host \<Rightarrow> enhancedStreamManager \<Rightarrow> item \<Rightarrow> enhancedStreamManager" where
  "playTrack hst s track =
     (let s1 = s\<lparr>currentTrack := Some track\<rparr>
      in case path track of
           None \<Rightarrow> enhanced_playFallbackAudio s1 track
         | Some p \<Rightarrow>
             if p = [] then enhanced_playFallbackAudio s1 track
             else (let s2 = enhanced_stopCurrentStream s1
                   in case createAudioStream hst s2 p of
                        Inr s3 \<Rightarrow> broadcastICYMetadata s3
                      | Inl err \<Rightarrow> enhanced_playFallbackAudio s2 track))"

definition playGaplessSequence ::
  "host \<Rightarrow> enhancedStreamManager \<Rightarrow> item list \<Rightarrow> enhancedStreamManager" where
  "playGaplessSequence hst s tracks =
     (if length tracks = 0 then s
      else (let s1 = s\<lparr>currentTrack := Some (tracks ! 0)\<rparr>;
                s2 = enhanced_stopCurrentStream s1
            in case createConcatFile hst s2 tracks of
                 Inl err \<Rightarrow> playTrack hst s2 (tracks ! 0)
               | Inr (concatFile, s3) \<Rightarrow>
                   (case createConcatStream hst s3 concatFile of
                      Inl err \<Rightarrow> playTrack hst s3 (tracks ! 0)
                    | Inr s4 \<Rightarrow> broadcastICYMetadata s4)))"

section \<open>Duration estimate of the audio analyzer\<close>

text \<open>
  What the call reads from Node: the size reported by \<^verbatim>\<open>fs.stat\<close> (\<open>None\<close> when it
  rejects), \<^verbatim>\<open>path.extname\<close> and \<^verbatim>\<open>String.prototype.toLowerCase\<close>.
\<close>

record node =
  stat_size :: "string \<Rightarrow> nat option"
  extname :: "string \<Rightarrow> string"
  toLowerCase :: "string \<Rightarrow> string"

definition bitrateEstimates :: "(string \<times> real) list" where
  "bitrateEstimates =
     [(''.mp3'', 128), (''.wav'', 1411), (''.flac'', 800), (''.ogg'', 128),
      (''.mp2'', 128), (''.wma'', 128), (''.wax'', 128)]"

text \<open>
  \<^verbatim>\<open>estimateDurationFromFileSize(filePath)\<close>; \<open>r\<close> is the value that \<^verbatim>\<open>Math.random()\<close> returns
  if the call reaches it. The arithmetic is that of the source over the reals, without
  the rounding of double precision.
\<close>

definition estimateDurationFromFileSize :: "node \<Rightarrow> string \<Rightarrow> real \<Rightarrow> int" where
  "estimateDurationFromFileSize nd filePath r =
     (case stat_size nd filePath of
        Some fileSize \<Rightarrow>
          (let fileSizeKB = real fileSize / 1024;
               ext = toLowerCase nd (extname nd filePath);
               estimatedBitrate = (case map_of bitrateEstimates ext of Some b \<Rightarrow> b | None \<Rightarrow> 128);
               durationSeconds = (fileSizeKB * 8) / estimatedBitrate
           in \<lfloor>durationSeconds * 1000\<rfloor>)
      | None \<Rightarrow> \<lfloor>r * 240000\<rfloor> + 60000)"

section \<open>Concrete catalogs, draws and states\<close>

text \<open>The inputs at which the theorems below are evaluated.\<close>

definition emptyLibrary :: library where
  "emptyLibrary =
     \<lparr>music = [], jingles = [], ads = [], intros = [], outros = [], solos = [], ids = [],
      transitions = (\<lambda>k. if k \<in> {''TO_AD'', ''TO_WEATHER'', ''TO_MUSIC''} then Some [] else None)\<rparr>"

definition sampleTrack :: item where
  "sampleTrack =
     \<lparr>path = Some ''/audio/B - A.mp3'', title = ''A'', artist = Some ''B'', type = ''music'',
      duration = 1000, startTime = None,
      isGaplessStart = False, isGaplessEnd = False, isGapless = False\<rparr>"

definition sampleJingle :: item where
  "sampleJingle =
     \<lparr>path = Some ''/audio/JING_1.mp3'', title = ''JING_1'', artist = None, type = ''jingle'',
      duration = 3000, startTime = None,
      isGaplessStart = False, isGaplessEnd = False, isGapless = False\<rparr>"

definition oneSongLibrary :: library where
  "oneSongLibrary = emptyLibrary\<lparr>music := [sampleTrack]\<rparr>"

definition jingleLibrary :: library where
  "jingleLibrary = emptyLibrary\<lparr>jingles := [sampleJingle]\<rparr>"

text \<open>Every draw is 0.5; the clock reads 0, 1, 2, ...\<close>

definition halfDraws :: env where
  "halfDraws = \<lparr>draws = (\<lambda>k. 1 / 2), ticks = (\<lambda>k. int k)\<rparr>"

text \<open>Every draw is 0, except the sixteenth, which is 0.5.\<close>

definition skippingDraws :: env where
  "skippingDraws = \<lparr>draws = (\<lambda>k. if k = 15 then 1 / 2 else 0), ticks = (\<lambda>k. int k)\<rparr>"

definition idleScheduler :: scheduler where
  "idleScheduler = \<lparr>queue = [], playlistGenerator = new_generator\<rparr>"

text \<open>A track whose title is 4067 bytes long.\<close>

definition longTitleTrack :: item where
  "longTitleTrack = sampleTrack\<lparr>title := replicate 4067 (CHR ''a''), artist := None\<rparr>"

text \<open>A manager with one listener while the track with the long title is current.\<close>

definition listener :: sink where
  "listener = \<lparr>sink_id = 0, destroyed = False, write_throws = False\<rparr>"

definition onAir :: enhancedStreamManager where
  "onAir =
     \<lparr>clients = [listener], currentStream = Some 0, ffmpegProcess = Some 0,
      spawned = [Transcode ''/audio/B - A.mp3''], killed = [], piped = [(0, 0)],
      stdin_written = [],
      currentTrack = Some longTitleTrack, currentConcatFile = None, written = [], files = []\<rparr>"

text \<open>A store in which every reference denotes a one-second track.\<close>

definition sampleStore :: store where
  "sampleStore = (\<lambda>r. sampleTrack)"

text \<open>A file system on which \<^verbatim>\<open>fs.stat\<close> rejects, and one on which every file has 16384 bytes.\<close>

definition unreadable :: node where
  "unreadable = \<lparr>stat_size = (\<lambda>p. None), extname = (\<lambda>p. ''.mp3''), toLowerCase = (\<lambda>x. x)\<rparr>"

definition readable :: node where
  "readable = \<lparr>stat_size = (\<lambda>p. Some 16384), extname = (\<lambda>p. ''.mp3''), toLowerCase = (\<lambda>x. x)\<rparr>"

text \<open>
  Every title that a draw from the music pool can pick is in the play history: the
  state in which \<^verbatim>\<open>createMusic\<close> can only retry.
\<close>

definition all_recent :: "env \<Rightarrow> library \<Rightarrow> generator \<Rightarrow> bool" where
  "all_recent e lib g \<longleftrightarrow>
     music lib \<noteq> [] \<and>
     (\<forall>k. title (music lib ! nat \<lfloor>draws e k * real (length (music lib))\<rfloor>)
            \<in> set (lastPlayedMusic g))"

section \<open>Random draws and the catalog\<close>

lemma random_index_in_range:
  assumes "0 \<le> r" and "r < 1" and "0 < n"
  shows "nat \<lfloor>r * real n\<rfloor> < n"
proof -
  have "r * real n < real n" using assms by simp
  then have "\<lfloor>r * real n\<rfloor> < int n" by (simp add: floor_less_iff)
  then show ?thesis using assms by simp
qed

lemma getRandomFrom_Nil: "getRandomFrom e g [] = (None, g)"
  by (simp add: getRandomFrom_def)

section \<open>The retry of \<^verbatim>\<open>createMusic\<close>\<close>

text \<open>
  A call that returns was not made in a state where every reachable title is recent:
  a retry leaves the history as it is, so the next attempt is in the same situation.
\<close>

lemma createMusic_stuck:
  assumes ret: "createMusic e lib g = Some y"
  shows "\<not> all_recent e lib g"
proof (rule createMusic.raw_induct [where P = "\<lambda>e lib g y. \<not> all_recent e lib g", OF _ ret])
  fix rec e lib g y
  assume IH: "\<And>e lib g y. rec e lib g = Some y \<Longrightarrow> \<not> all_recent e lib g"
    and body: "(case getRandomMusic e lib g of
        (None, g1) \<Rightarrow> Some (createFallbackItem e g1)
      | (Some m, g1) \<Rightarrow>
          if wasRecentlyPlayed g1 (title m) then rec e lib g1
          else (let g2 = addToHistory g1 (title m);
                    (now, g3) = Date_now e g2
                in Some (m\<lparr>startTime := Some now\<rparr>, g3))) = Some y"
  show "\<not> all_recent e lib g"
  proof
    assume bad: "all_recent e lib g"
    define g1 where "g1 = g\<lparr>draws_used := draws_used g + 1\<rparr>"
    define m where "m = music lib ! nat \<lfloor>draws e (draws_used g) * real (length (music lib))\<rfloor>"
    have draw: "getRandomMusic e lib g = (Some m, g1)"
      using bad
      by (simp add: all_recent_def getRandomMusic_def getRandomFrom_def Math_random_def
          g1_def m_def)
    have recent: "wasRecentlyPlayed g1 (title m)"
      using bad by (simp add: all_recent_def wasRecentlyPlayed_def g1_def m_def)
    have "rec e lib g1 = Some y"
      using body draw recent by simp
    then have "\<not> all_recent e lib g1" by (rule IH)
    moreover have "all_recent e lib g1"
      using bad by (simp add: all_recent_def g1_def)
    ultimately show False by contradiction
  qed
qed

text \<open>On an empty music pool the call returns the filler item at once.\<close>

lemma createMusic_empty_pool:
  "music lib = [] \<Longrightarrow> createMusic e lib g = Some (createFallbackItem e g)"
  by (subst createMusic.simps) (simp add: getRandomMusic_def getRandomFrom_Nil)

lemma createMusic_diverges: "all_recent e lib g \<Longrightarrow> createMusic e lib g = None"
  using createMusic_stuck by (cases "createMusic e lib g") auto

lemma all_recent_oneSong:
  "''A'' \<in> set (lastPlayedMusic g) \<Longrightarrow> all_recent halfDraws oneSongLibrary g"
  by (simp add: all_recent_def halfDraws_def oneSongLibrary_def sampleTrack_def)

lemma createMusic_oneSong_first:
  assumes "lastPlayedMusic g = []" and "0 < maxHistorySize g"
  shows "\<exists>m g'. createMusic halfDraws oneSongLibrary g = Some (m, g') \<and>
                 lastPlayedMusic g' = [''A'']"
  using assms
  by (subst createMusic.simps)
    (simp add: getRandomMusic_def getRandomFrom_def oneSongLibrary_def Math_random_def
      halfDraws_def wasRecentlyPlayed_def addToHistory_def Date_now_def sampleTrack_def)

text \<open>
  C1. The claim: \<^verbatim>\<open>createMusic\<close> stops after a bounded number of retries and then
  returns a filler item. On a catalog with one song, the first call of a new generator
  returns the song and records its title; the second call draws the same title at every
  attempt and never returns, with no filler item.
\<close>

theorem createMusic_retries_without_bound:
  "createMusic halfDraws oneSongLibrary new_generator =
     Some (sampleTrack\<lparr>startTime := Some 0\<rparr>,
           \<lparr>lastPlayedMusic = [''A''], maxHistorySize = 20, draws_used = 1, ticks_used = 1\<rparr>)
   \<and> createMusic halfDraws oneSongLibrary
        \<lparr>lastPlayedMusic = [''A''], maxHistorySize = 20, draws_used = 1, ticks_used = 1\<rparr> = None"
proof
  show "createMusic halfDraws oneSongLibrary new_generator =
     Some (sampleTrack\<lparr>startTime := Some 0\<rparr>,
           \<lparr>lastPlayedMusic = [''A''], maxHistorySize = 20, draws_used = 1, ticks_used = 1\<rparr>)"
    by (subst createMusic.simps)
      (simp add: getRandomMusic_def getRandomFrom_def oneSongLibrary_def Math_random_def
        halfDraws_def new_generator_def wasRecentlyPlayed_def addToHistory_def Date_now_def
        sampleTrack_def)
  show "createMusic halfDraws oneSongLibrary
        \<lparr>lastPlayedMusic = [''A''], maxHistorySize = 20, draws_used = 1, ticks_used = 1\<rparr> = None"
    by (rule createMusic_diverges) (simp add: all_recent_oneSong)
qed

section \<open>Length of a generated playlist\<close>

lemma determineContentType_history:
  "lastPlayedMusic (snd (determineContentType e g i)) = lastPlayedMusic g"
  by (simp add: determineContentType_def Math_random_def split: prod.splits)

lemma determineContentType_maxHistorySize:
  "maxHistorySize (snd (determineContentType e g i)) = maxHistorySize g"
  by (simp add: determineContentType_def Math_random_def split: prod.splits)

lemma determineContentType_halfDraws:
  "i < 6 \<Longrightarrow> fst (determineContentType halfDraws g i) = ''music-solo''"
  by (simp add: determineContentType_def Math_random_def halfDraws_def split: prod.splits)

text \<open>Each position pushes at least one item, whatever builder is chosen.\<close>

lemma buildContent_nonempty:
  "buildContent e lib g c = Some (pushed, g') \<Longrightarrow> 1 \<le> length pushed"
  by (auto simp: buildContent_def createMusicWithIntro_def createMusicWithOutro_def
      createGaplessSequence_fresh_def Let_def
      split: if_splits prod.splits option.splits)

lemma generatePlaylist_loop_length:
  "generatePlaylist_loop e lib count i playlist g = Some (result, g') \<Longrightarrow>
   length playlist + (count - i) \<le> length result"
proof (induction e lib count i playlist g rule: generatePlaylist_loop.induct)
  case (1 e lib count i playlist g)
  show ?case
  proof (cases "i < count")
    case False
    with "1.prems" show ?thesis by (simp add: generatePlaylist_loop.simps)
  next
    case True
    obtain contentType g1 where d: "determineContentType e g i = (contentType, g1)"
      by (cases "determineContentType e g i")
    from True d "1.prems" obtain pushed g2 where
      b: "buildContent e lib g1 contentType = Some (pushed, g2)" and
      r: "generatePlaylist_loop e lib count (Suc i) (playlist @ pushed) g2 = Some (result, g')"
      by (subst (asm) generatePlaylist_loop.simps) (auto split: option.splits)
    have "length (playlist @ pushed) + (count - Suc i) \<le> length result"
      using "1.IH" [OF True refl d [symmetric] b refl r] by simp
    moreover have "1 \<le> length pushed" using b by (rule buildContent_nonempty)
    ultimately show ?thesis using True by simp
  qed
qed

text \<open>Whenever \<^verbatim>\<open>generatePlaylist(n)\<close> returns, the playlist has at least \<open>n\<close> items.\<close>

lemma generatePlaylist_length:
  "generatePlaylist e lib g n = Some (playlist, g') \<Longrightarrow> n \<le> length playlist"
  using generatePlaylist_loop_length [of e lib n 0 "[]" g playlist g']
  by (simp add: generatePlaylist_def)

text \<open>
  C4. The claim: for every catalog and every sequence of draws \<^verbatim>\<open>generatePlaylist(n)\<close>
  returns a playlist of at least \<open>n\<close> items. On the catalog with one song and draws of
  0.5, both positions of \<^verbatim>\<open>generatePlaylist(2)\<close> are music-solo, and the second one is the
  call of \<^verbatim>\<open>createMusic\<close> that never returns: no playlist is returned.
\<close>

theorem generatePlaylist_never_returns:
  "generatePlaylist halfDraws oneSongLibrary new_generator 2 = None"
proof -
  let ?e = halfDraws and ?lib = oneSongLibrary
  define g1 where "g1 = snd (determineContentType ?e new_generator 0)"
  have d0: "determineContentType ?e new_generator 0 = (''music-solo'', g1)"
    using determineContentType_halfDraws [of 0 new_generator]
    by (simp add: g1_def prod_eq_iff)
  have "lastPlayedMusic g1 = []" "0 < maxHistorySize g1"
    by (simp_all add: g1_def determineContentType_history determineContentType_maxHistorySize
        new_generator_def)
  then obtain m g2 where
    m0: "createMusic ?e ?lib g1 = Some (m, g2)" and h2: "lastPlayedMusic g2 = [''A'']"
    using createMusic_oneSong_first by blast
  have b0: "buildContent ?e ?lib g1 ''music-solo'' = Some ([m], g2)"
    by (simp add: buildContent_def m0)
  define g3 where "g3 = snd (determineContentType ?e g2 (Suc 0))"
  have d1: "determineContentType ?e g2 (Suc 0) = (''music-solo'', g3)"
    using determineContentType_halfDraws [of "Suc 0" g2]
    by (simp add: g3_def prod_eq_iff)
  have "all_recent ?e ?lib g3"
    by (rule all_recent_oneSong) (simp add: g3_def determineContentType_history h2)
  then have "createMusic ?e ?lib g3 = None"
    by (rule createMusic_diverges)
  then have b1: "buildContent ?e ?lib g3 ''music-solo'' = None"
    by (simp add: buildContent_def)
  have "generatePlaylist_loop ?e ?lib 2 (Suc 0) [m] g2 = None"
    by (subst generatePlaylist_loop.simps) (simp add: d1 b1)
  then have "generatePlaylist_loop ?e ?lib 2 0 [] new_generator = None"
    by (subst generatePlaylist_loop.simps) (simp add: d0 b0)
  then show ?thesis by (simp add: generatePlaylist_def)
qed

section \<open>Station ids\<close>

text \<open>
  C6. The claim: a station id is forced every 5 to 7 positions, so that no more than 7
  consecutive positions pass without one, whatever the draws. The period is drawn anew
  at every position, so the draws can miss every position: with one jingle in the
  catalog and every draw 0 except the period drawn at position 5, the ten positions of
  \<^verbatim>\<open>generatePlaylist(10)\<close> are ten jingles and no station id.
\<close>

theorem generatePlaylist_ten_positions_without_station_id:
  "map_option (map type \<circ> fst) (generatePlaylist skippingDraws jingleLibrary new_generator 10) =
     Some [''jingle'', ''jingle'', ''jingle'', ''jingle'', ''jingle'',
           ''jingle'', ''jingle'', ''jingle'', ''jingle'', ''jingle'']"
  by (simp add: generatePlaylist_def generatePlaylist_loop.simps determineContentType_def
      Math_random_def skippingDraws_def jingleLibrary_def emptyLibrary_def new_generator_def
      buildContent_def createJingle_def getRandomJingle_def getRandomFrom_def Date_now_def
      sampleJingle_def)

section \<open>Ad segments on an empty catalog\<close>

lemma createAdSegment_loop_no_ads:
  "ads lib = [] \<Longrightarrow> createAdSegment_loop e lib adCount i segment g = (segment, g)"
proof (induction e lib adCount i segment g rule: createAdSegment_loop.induct)
  case (1 e lib adCount i segment g)
  show ?case
  proof (cases "int i < adCount")
    case True
    have "getRandomAd e lib g = (None, g)"
      using "1.prems" by (simp add: getRandomAd_def getRandomFrom_Nil)
    with True "1.IH" "1.prems" show ?thesis
      by (subst createAdSegment_loop.simps) simp
  next
    case False
    then show ?thesis by (subst createAdSegment_loop.simps) simp
  qed
qed

text \<open>
  C7. When the ad pool and the TO_AD transition pool are both empty,
  \<^verbatim>\<open>createAdSegment\<close> returns a list of exactly one item, the filler item: no path, a
  duration of 5000 ms, stamped with the current time. The model has no error branch on
  this path, and the result is never empty.
\<close>

theorem createAdSegment_empty_pools:
  assumes "ads lib = []"
    and "(case transitions lib ''TO_AD'' of None \<Rightarrow> [] | Some pool \<Rightarrow> pool) = []"
  shows "fst (createAdSegment e lib g) =
           [\<lparr>path = None, title = ''Radio Station'', artist = Some ''On Air'',
             type = ''station-id'', duration = 5000, startTime = Some (ticks e (ticks_used g)),
             isGaplessStart = False, isGaplessEnd = False, isGapless = False\<rparr>]"
  using assms
  by (simp add: createAdSegment_def getRandomDJTransition_def getRandomFrom_Nil
      Math_random_def createAdSegment_loop_no_ads createFallbackItem_def Date_now_def
      fallbackItem_def split: prod.splits)

theorem createAdSegment_empty_pools_witness:
  "ads emptyLibrary = [] \<and>
   (case transitions emptyLibrary ''TO_AD'' of None \<Rightarrow> [] | Some pool \<Rightarrow> pool) = [] \<and>
   fst (createAdSegment halfDraws emptyLibrary new_generator) =
     [\<lparr>path = None, title = ''Radio Station'', artist = Some ''On Air'',
       type = ''station-id'', duration = 5000, startTime = Some 0,
       isGaplessStart = False, isGaplessEnd = False, isGapless = False\<rparr>]"
proof -
  have a: "ads emptyLibrary = []" by (simp add: emptyLibrary_def)
  have t: "(case transitions emptyLibrary ''TO_AD'' of None \<Rightarrow> [] | Some pool \<Rightarrow> pool) = []"
    by (simp add: emptyLibrary_def)
  show ?thesis
    using a t createAdSegment_empty_pools [OF a t, of halfDraws new_generator]
    by (simp add: halfDraws_def new_generator_def)
qed

section \<open>The upcoming projection\<close>

lemma scheduleAdBreak_empty:
  "queue (scheduleAdBreak e emptyLibrary s) =
     Sequence [fallbackItem (ticks e (ticks_used (playlistGenerator s)))] # queue s"
proof -
  have a: "ads emptyLibrary = []" by (simp add: emptyLibrary_def)
  have t: "(case transitions emptyLibrary ''TO_AD'' of None \<Rightarrow> [] | Some pool \<Rightarrow> pool) = []"
    by (simp add: emptyLibrary_def)
  show ?thesis using a t
  by (simp add: scheduleAdBreak_def createAdSegment_def getRandomDJTransition_def getRandomFrom_Nil
      Math_random_def createAdSegment_loop_no_ads createFallbackItem_def Date_now_def
      split: prod.splits)
qed

text \<open>
  C3. The claim: a queue entry that is a segment appears in \<^verbatim>\<open>getUpcoming\<close> flattened or as
  its first member, never with undefined fields. After an ad break scheduled on an empty
  catalog the queue holds the one-member array of the filler item, and the projection
  of that entry has no title, no artist, no type and no duration.
\<close>

theorem getUpcoming_segment_undefined:
  "queue (scheduleAdBreak halfDraws emptyLibrary idleScheduler) = [Sequence [fallbackItem 0]] \<and>
   getUpcoming (scheduleAdBreak halfDraws emptyLibrary idleScheduler) =
     [\<lparr>up_title = None, up_artist = None, up_type = None, up_duration = None\<rparr>]"
  by (simp add: getUpcoming_def scheduleAdBreak_empty idleScheduler_def halfDraws_def
      new_generator_def)

text \<open>An entry that is a single item is projected with its own fields.\<close>

lemma getUpcoming_tracks:
  "getUpcoming \<lparr>queue = map Track tracks, playlistGenerator = g\<rparr> =
     map (\<lambda>t. \<lparr>up_title = Some (title t), up_artist = artist t, up_type = Some (type t),
               up_duration = Some (duration t)\<rparr>) (take 5 tracks)"
  by (simp add: getUpcoming_def take_map)

section \<open>The gapless invariant\<close>

lemma forEach_item_other: "r \<notin> set rs \<Longrightarrow> forEach_item rs t h r = h r"
  by (induction rs arbitrary: t h) (auto simp: Let_def)

lemma forEach_item_duration: "duration (forEach_item rs t h r) = duration (h r)"
  by (induction rs arbitrary: t h) (auto simp: Let_def)

lemma forEach_item_isGaplessStart:
  "isGaplessStart (forEach_item rs t h r) = isGaplessStart (h r)"
  by (induction rs arbitrary: t h) (auto simp: Let_def)

lemma forEach_item_isGaplessEnd:
  "isGaplessEnd (forEach_item rs t h r) = isGaplessEnd (h r)"
  by (induction rs arbitrary: t h) (auto simp: Let_def)

text \<open>
  On distinct references, member \<open>i\<close> starts at the initial time plus the durations of
  the members before it.
\<close>

lemma forEach_item_startTime:
  "distinct rs \<Longrightarrow> i < length rs \<Longrightarrow>
   startTime (forEach_item rs t h (rs ! i)) = Some (t + (\<Sum>r \<leftarrow> take i rs. duration (h r)))"
proof (induction rs arbitrary: t h i)
  case Nil
  then show ?case by simp
next
  case (Cons r rs)
  show ?case
  proof (cases i)
    case 0
    with Cons.prems show ?thesis by (simp add: Let_def forEach_item_other)
  next
    case (Suc j)
    let ?h' = "h(r := (h r)\<lparr>startTime := Some t, isGapless := True\<rparr>)"
    have d: "\<And>x. duration (?h' x) = duration (h x)" by simp
    from Suc Cons.prems
    have "startTime (forEach_item rs (t + duration (?h' r)) ?h' (rs ! j))
        = Some (t + duration (?h' r) + (\<Sum>r \<leftarrow> take j rs. duration (?h' r)))"
      by (intro Cons.IH) auto
    with Suc show ?thesis by (simp add: Let_def d del: fun_upd_apply)
  qed
qed

text \<open>
  C5, as amended. For every list of two or more items, \<^verbatim>\<open>createGaplessSequence\<close> returns
  the list it was given, with the first member flagged as gapless start and the last as
  gapless end; and when the members are pairwise distinct objects, each member of the
  result starts where the one before it ends.
\<close>

theorem createGaplessSequence_contiguous:
  assumes "2 \<le> length items"
  shows "let result = fst (createGaplessSequence now items h);
             h' = snd (createGaplessSequence now items h)
         in result = items \<and>
            isGaplessStart (h' (result ! 0)) \<and>
            isGaplessEnd (h' (result ! (length result - 1))) \<and>
            (distinct items \<longrightarrow>
              (\<forall>i. Suc i < length result \<longrightarrow>
                 (\<exists>t. startTime (h' (result ! i)) = Some t \<and>
                      startTime (h' (result ! Suc i)) = Some (t + duration (h' (result ! i))))))"
proof -
  let ?first = "items ! 0"
  let ?h1 = "h(?first := (h ?first)\<lparr>isGaplessStart := True\<rparr>)"
  let ?final = "items ! (length items - 1)"
  let ?h2 = "?h1(?final := (?h1 ?final)\<lparr>isGaplessEnd := True\<rparr>)"
  let ?h' = "forEach_item items now ?h2"
  have lst: "fst (createGaplessSequence now items h) = items"
    by (simp add: createGaplessSequence_def Let_def)
  have res: "snd (createGaplessSequence now items h) = ?h'"
    using assms by (simp add: createGaplessSequence_def Let_def)
  have step: "\<exists>t. startTime (?h' (items ! i)) = Some t \<and>
                 startTime (?h' (items ! Suc i)) = Some (t + duration (?h' (items ! i)))"
    if d: "distinct items" and "Suc i < length items" for i
  proof -
    from that have i: "i < length items" by simp
    have "take (Suc i) items = take i items @ [items ! i]"
      using i by (simp add: take_Suc_conv_app_nth)
    then show ?thesis
      using forEach_item_startTime [OF d i, of now ?h2]
            forEach_item_startTime [OF d that(2), of now ?h2]
      by (simp add: forEach_item_duration del: fun_upd_apply)
  qed
  have "isGaplessStart (?h' ?first)"
    by (simp add: forEach_item_isGaplessStart)
  moreover have "isGaplessEnd (?h' ?final)"
    by (simp add: forEach_item_isGaplessEnd)
  ultimately show ?thesis
    unfolding lst res Let_def using step by blast
qed

theorem createGaplessSequence_contiguous_witness:
  "2 \<le> length [0, 1 :: ref] \<and> distinct [0, 1 :: ref] \<and>
   fst (createGaplessSequence 50 [0, 1] sampleStore) = [0, 1] \<and>
   startTime (snd (createGaplessSequence 50 [0, 1] sampleStore) 0) = Some 50 \<and>
   startTime (snd (createGaplessSequence 50 [0, 1] sampleStore) 1) =
     Some (50 + duration (snd (createGaplessSequence 50 [0, 1] sampleStore) 0)) \<and>
   isGaplessStart (snd (createGaplessSequence 50 [0, 1] sampleStore) 0) \<and>
   isGaplessEnd (snd (createGaplessSequence 50 [0, 1] sampleStore) 1)"
proof -
  have l: "2 \<le> length [0, 1 :: ref]" by simp
  have d: "distinct [0, 1 :: ref]" by simp
  have s: "startTime (snd (createGaplessSequence 50 [0, 1] sampleStore) 0) = Some 50"
    by (simp add: createGaplessSequence_def Let_def)
  note t = createGaplessSequence_contiguous [OF l, of 50 sampleStore, unfolded Let_def]
  from t have r: "fst (createGaplessSequence 50 [0, 1] sampleStore) = [0, 1]"
    by blast
  from t [unfolded r] d
  have "(\<exists>t. startTime (snd (createGaplessSequence 50 [0, 1] sampleStore) ([0, 1] ! 0)) = Some t \<and>
             startTime (snd (createGaplessSequence 50 [0, 1] sampleStore) ([0, 1] ! Suc 0)) =
               Some (t + duration (snd (createGaplessSequence 50 [0, 1] sampleStore) ([0, 1] ! 0))))
        \<and> isGaplessStart (snd (createGaplessSequence 50 [0, 1] sampleStore) ([0, 1] ! 0))
        \<and> isGaplessEnd (snd (createGaplessSequence 50 [0, 1] sampleStore) ([0, 1] ! (length [0, 1 :: ref] - 1)))"
    by (auto dest: spec [of _ 0])
  with s l d r show ?thesis by simp
qed

text \<open>
  C5 as stated has the start times contiguous for every list of two or more items. When
  both positions of the list hold the same object, the second pass of the loop
  overwrites the start time set by the first: the first member of the result starts at
  1000 and lasts 1000, and the second member (the same object) does not start at 2000.
\<close>

theorem createGaplessSequence_shared_object_counterexample:
  "fst (createGaplessSequence 0 [0, 0] sampleStore) = [0, 0] \<and>
   startTime (snd (createGaplessSequence 0 [0, 0] sampleStore)
                (fst (createGaplessSequence 0 [0, 0] sampleStore) ! 0)) = Some 1000 \<and>
   duration (snd (createGaplessSequence 0 [0, 0] sampleStore)
               (fst (createGaplessSequence 0 [0, 0] sampleStore) ! 0)) = 1000 \<and>
   startTime (snd (createGaplessSequence 0 [0, 0] sampleStore)
                (fst (createGaplessSequence 0 [0, 0] sampleStore) ! Suc 0)) \<noteq>
     Some (1000 + 1000)"
  by (simp add: createGaplessSequence_def Let_def sampleStore_def sampleTrack_def)

text \<open>
  The generator only builds sequences of fresh copies. On distinct references the
  list-based \<open>createGaplessSequence_fresh\<close> computes the objects that the store holds
  after \<open>createGaplessSequence\<close>.
\<close>

lemma stamp_forEach_item:
  "distinct rs \<Longrightarrow> stamp t (map h rs) = map (forEach_item rs t h) rs"
proof (induction rs arbitrary: t h)
  case Nil
  then show ?case by simp
next
  case (Cons r rs)
  let ?h' = "h(r := (h r)\<lparr>startTime := Some t, isGapless := True\<rparr>)"
  from Cons.prems have r: "r \<notin> set rs" and d: "distinct rs" by simp_all
  have same: "map ?h' rs = map h rs" using r by (auto simp: map_eq_conv)
  have "stamp (t + duration (h r)) (map ?h' rs) = map (forEach_item rs (t + duration (h r)) ?h') rs"
    using d by (rule Cons.IH)
  then have "stamp (t + duration (h r)) (map h rs) = map (forEach_item rs (t + duration (h r)) ?h') rs"
    by (simp only: same)
  then show ?case using r by (simp add: Let_def forEach_item_other del: fun_upd_apply) simp
qed

lemma createGaplessSequence_fresh_agrees:
  assumes "distinct items"
  shows "fst (createGaplessSequence_fresh e g (map h items)) =
         map (snd (createGaplessSequence (ticks e (ticks_used g)) items h)) items"
proof (cases "length items \<le> 1")
  case True
  then show ?thesis by (simp add: createGaplessSequence_fresh_def createGaplessSequence_def)
next
  case False
  let ?first = "items ! 0"
  let ?h1 = "h(?first := (h ?first)\<lparr>isGaplessStart := True\<rparr>)"
  let ?n = "length items - 1"
  let ?final = "items ! ?n"
  let ?h2 = "?h1(?final := (?h1 ?final)\<lparr>isGaplessEnd := True\<rparr>)"
  from False have len: "0 < length items" "?n < length items" by (cases items; simp)+
  have upd: "(map f items)[i := v] = map (f(items ! i := v)) items"
    if "i < length items" for f :: store and i v
    using that assms
    by (auto simp: list_eq_iff_nth_eq nth_list_update nth_eq_iff_index_eq)
  have "(map h items)[0 := (map h items ! 0)\<lparr>isGaplessStart := True\<rparr>] = map ?h1 items"
    using upd [OF len(1), of h] len by simp
  moreover
  have "(map ?h1 items)[?n := (map ?h1 items ! ?n)\<lparr>isGaplessEnd := True\<rparr>] = map ?h2 items"
    using upd [OF len(2), of ?h1] len by (simp del: fun_upd_apply)
  ultimately show ?thesis
    using False assms
    by (simp add: createGaplessSequence_fresh_def createGaplessSequence_def Let_def Date_now_def
        stamp_forEach_item del: fun_upd_apply)
qed

section \<open>Fallback audio\<close>

lemma length_audioBuffer: "length (audioBuffer n) = 4 * n"
  by (induction n) (simp_all add: audioBuffer_def int16LE_def Let_def)

text \<open>
  \<^verbatim>\<open>StreamManager.playFallbackAudio\<close> on a positive duration \<open>D\<close> that fits a buffer: it
  spawns one raw-audio pipeline, pipes its output to every live sink and feeds it the
  tone, \<open>samples\<close> stereo frames at 44100 frames per second with
  \<open>samples / 44.1 \<le> D < (samples + 1) / 44.1\<close> milliseconds.
\<close>

lemma playFallbackAudio_tone:
  assumes "0 < duration track"
    and "duration track * 44100 div 1000 * 4 \<le> int (kMaxLength hst)"
    and "\<not> spawn_throws hst"
  shows "\<exists>s' samples.
      playFallbackAudio hst s track = Inr s' \<and>
      spawned s' = spawned s @ [RawPCM] \<and>
      currentStream s' = Some (length (spawned s)) \<and>
      stdin_written s' = stdin_written s @ [(length (spawned s), audioBuffer samples)] \<and>
      length (audioBuffer samples) = 4 * samples \<and>
      int samples * 1000 \<le> duration track * 44100 \<and>
      duration track * 44100 < (int samples + 1) * 1000 \<and>
      piped s' = piped s @ map (\<lambda>c. (length (spawned s), sink_id c))
                             (filter (\<lambda>c. \<not> destroyed c) (clients s))"
  using assms
  by (auto simp: playFallbackAudio_def Let_def stopCurrentStream_def setupStreamPiping_def
      length_audioBuffer split: option.splits)

text \<open>
  C2. The claim: asking for fallback audio yields a synthesized tone of the item's
  duration that is broadcast to the listeners. \<^verbatim>\<open>EnhancedStreamManager.playFallbackAudio\<close>,
  the one the server runs, only stops the current stream: it spawns no pipeline, writes
  no audio, pipes nothing and sends nothing to any sink, and leaves no current stream.
\<close>

theorem enhanced_playFallbackAudio_silent:
  "spawned (enhanced_playFallbackAudio s track) = spawned s \<and>
   stdin_written (enhanced_playFallbackAudio s track) = stdin_written s \<and>
   piped (enhanced_playFallbackAudio s track) = piped s \<and>
   written (enhanced_playFallbackAudio s track) = written s \<and>
   currentStream (enhanced_playFallbackAudio s track) = None \<and>
   ffmpegProcess (enhanced_playFallbackAudio s track) = None"
  by (simp add: enhanced_playFallbackAudio_def enhanced_stopCurrentStream_def
      stopCurrentStream_def Let_def split: option.splits)

text \<open>The same holds for \<^verbatim>\<open>playTrack\<close> on an item without a path, such as the filler item.\<close>

lemma playTrack_null_path_silent:
  "path track = None \<Longrightarrow>
   spawned (playTrack hst s track) = spawned s \<and> piped (playTrack hst s track) = piped s \<and>
   written (playTrack hst s track) = written s \<and> currentStream (playTrack hst s track) = None"
  by (simp add: playTrack_def enhanced_playFallbackAudio_def enhanced_stopCurrentStream_def
      stopCurrentStream_def Let_def split: option.splits)

section \<open>Metadata packets\<close>

text \<open>The text of the packet: the artist, a dash and the title when there is an artist.\<close>

lemma metadataString_artist_title:
  assumes "title track \<noteq> []" and "artist track = Some a" and "a \<noteq> []"
  shows "metadataString track =
           ''StreamTitle='' @ [CHR 0x27] @ a @ '' - '' @ title track @ [CHR 0x27] @ '';''"
  using assms by (simp add: metadataString_def)

lemma metadataString_title_only:
  assumes "title track \<noteq> []" and "artist track = None"
  shows "metadataString track = ''StreamTitle='' @ [CHR 0x27] @ title track @ [CHR 0x27] @ '';''"
  using assms by (simp add: metadataString_def)

text \<open>The length byte holds the low eight bits of the number of blocks.\<close>

lemma icyPacket_length_byte:
  "unat (hd (icyPacket track)) = ((length (metadataString track) + 15) div 16) mod 256"
  by (simp add: icyPacket_def Let_def unat_of_nat take_bit_eq_mod)

text \<open>
  The packet has 1 + 16 k bytes, where 16 k is the length of the text rounded up to a
  multiple of 16; the text comes first and zeros fill the rest; the first byte is k as
  long as k is at most 255.
\<close>

lemma icyPacket_block:
  "let payload = map of_char (metadataString track) :: byte list;
       k = (length payload + 15) div 16;
       packet = icyPacket track
   in length packet = 1 + 16 * k
      \<and> length payload \<le> 16 * k \<and> 16 * k < length payload + 16
      \<and> (k \<le> 255 \<longrightarrow> unat (hd packet) = k)
      \<and> take (length payload) (tl packet) = payload
      \<and> drop (length payload) (tl packet) = replicate (16 * k - length payload) 0"
  unfolding Let_def icyPacket_def
  apply (intro conjI)
  subgoal by simp
  subgoal by simp
  subgoal by simp
  subgoal by (simp add: unat_of_nat take_bit_nat_eq_self)
  subgoal by simp
  subgoal by (simp add: mult.commute)
  done

lemma sendICYMetadata_writes_packet:
  "currentTrack s = Some track \<Longrightarrow> \<not> write_throws client \<Longrightarrow>
   written (sendICYMetadata s client) = written s @ [(sink_id client, icyPacket track)]"
  by (simp add: sendICYMetadata_def)

text \<open>
  C9. The claim: for every title and artist the packet sent to a sink has 1 + 16 k
  bytes and its first byte is k, the number of 16-byte units. While a track with a title
  of 4067 bytes and no artist is current, the text \<^verbatim>\<open>StreamTitle='aaa...a';\<close> has 4082
  bytes, which is 256 units: the packet written to the listener has 4097 bytes, starts
  with the text and has the length byte 0, not 256.
\<close>

theorem sendICYMetadata_long_title_length_byte:
  "written (sendICYMetadata onAir listener) = [(0, icyPacket longTitleTrack)] \<and>
   metadataString longTitleTrack =
     ''StreamTitle='' @ [CHR 0x27] @ replicate 4067 (CHR ''a'') @ [CHR 0x27] @ '';'' \<and>
   length (metadataString longTitleTrack) = 4082 \<and>
   (length (metadataString longTitleTrack) + 15) div 16 = 256 \<and>
   length (icyPacket longTitleTrack) = 1 + 16 * 256 \<and>
   take 4082 (tl (icyPacket longTitleTrack)) = map of_char (metadataString longTitleTrack) \<and>
   unat (hd (icyPacket longTitleTrack)) = 0"
proof -
  have m: "metadataString longTitleTrack =
     ''StreamTitle='' @ [CHR 0x27] @ replicate 4067 (CHR ''a'') @ [CHR 0x27] @ '';''"
    by (simp add: metadataString_def longTitleTrack_def sampleTrack_def)
  have l: "length (metadataString longTitleTrack) = 4082"
    unfolding m by simp
  have w: "written (sendICYMetadata onAir listener) = [(0, icyPacket longTitleTrack)]"
    by (simp add: sendICYMetadata_def onAir_def listener_def)
  have n: "length (icyPacket longTitleTrack) = 1 + 16 * 256"
    by (simp add: icyPacket_def Let_def l)
  have t: "take 4082 (tl (icyPacket longTitleTrack)) = map of_char (metadataString longTitleTrack)"
    by (simp add: icyPacket_def Let_def l)
  have b: "unat (hd (icyPacket longTitleTrack)) = 0"
    by (simp add: icyPacket_length_byte l)
  from w m l n t b show ?thesis by simp
qed

section \<open>Gapless playback of an empty sequence\<close>

text \<open>
  C10. \<^verbatim>\<open>playGaplessSequence\<close> on an empty list returns at once and leaves the whole state
  as it was: the running pipeline and its stream, the processes killed and spawned,
  the packets written to sinks, the files written, the current track and the set of
  listeners.
\<close>

theorem playGaplessSequence_empty: "playGaplessSequence hst s [] = s"
  by (simp add: playGaplessSequence_def)

section \<open>Duration estimate\<close>

text \<open>
  C8, as amended. When the size of the file can be read, the estimate depends on the
  size and the lower-cased extension only: two files of the same size and extension get
  the same estimate, whatever \<^verbatim>\<open>Math.random()\<close> would return. When the size cannot be
  read, the estimate is \<open>\<lfloor>r * 240000\<rfloor> + 60000\<close> for the random draw \<open>r\<close>, a value from
  60000 to 299999 ms.
\<close>

theorem estimateDurationFromFileSize_readable_deterministic:
  "(stat_size nd p = Some n \<and> stat_size nd q = Some n \<and>
    toLowerCase nd (extname nd p) = toLowerCase nd (extname nd q)
      \<longrightarrow> estimateDurationFromFileSize nd p r1 = estimateDurationFromFileSize nd q r2)
   \<and> (stat_size nd p = None \<and> 0 \<le> r \<and> r < 1 \<longrightarrow>
        estimateDurationFromFileSize nd p r = \<lfloor>r * 240000\<rfloor> + 60000 \<and>
        60000 \<le> estimateDurationFromFileSize nd p r \<and>
        estimateDurationFromFileSize nd p r < 300000)"
proof (intro conjI impI)
  assume "stat_size nd p = Some n \<and> stat_size nd q = Some n \<and>
          toLowerCase nd (extname nd p) = toLowerCase nd (extname nd q)"
  then show "estimateDurationFromFileSize nd p r1 = estimateDurationFromFileSize nd q r2"
    by (simp add: estimateDurationFromFileSize_def Let_def)
next
  assume u: "stat_size nd p = None \<and> 0 \<le> r \<and> r < 1"
  then show est: "estimateDurationFromFileSize nd p r = \<lfloor>r * 240000\<rfloor> + 60000"
    by (simp add: estimateDurationFromFileSize_def)
  from u have "0 \<le> \<lfloor>r * 240000\<rfloor>" and "\<lfloor>r * 240000\<rfloor> < 240000"
    by (simp_all add: floor_less_iff)
  then show "60000 \<le> estimateDurationFromFileSize nd p r"
    and "estimateDurationFromFileSize nd p r < 300000"
    unfolding est by simp_all
qed

theorem estimateDurationFromFileSize_readable_deterministic_witness:
  "stat_size readable ''/audio/a.mp3'' = Some 16384 \<and>
   stat_size readable ''/audio/b.mp3'' = Some 16384 \<and>
   estimateDurationFromFileSize readable ''/audio/a.mp3'' 0 =
     estimateDurationFromFileSize readable ''/audio/b.mp3'' (1 / 2) \<and>
   stat_size unreadable ''/audio/a.mp3'' = None \<and>
   estimateDurationFromFileSize unreadable ''/audio/a.mp3'' (1 / 2) = 180000"
proof -
  have a: "stat_size readable ''/audio/a.mp3'' = Some 16384"
    and b: "stat_size readable ''/audio/b.mp3'' = Some 16384"
    and e: "toLowerCase readable (extname readable ''/audio/a.mp3'') =
            toLowerCase readable (extname readable ''/audio/b.mp3'')"
    and u: "stat_size unreadable ''/audio/a.mp3'' = None"
    by (simp_all add: readable_def unreadable_def)
  have h: "(0::real) \<le> 1 / 2 \<and> (1 / 2 :: real) < 1" by simp
  from estimateDurationFromFileSize_readable_deterministic
         [of readable "''/audio/a.mp3''" 16384 "''/audio/b.mp3''" 0 "1 / 2"] a b e
  have 1: "estimateDurationFromFileSize readable ''/audio/a.mp3'' 0 =
           estimateDurationFromFileSize readable ''/audio/b.mp3'' (1 / 2)"
    by blast
  from estimateDurationFromFileSize_readable_deterministic
         [of unreadable "''/audio/a.mp3''" _ _ _ _ "1 / 2"] u h
  have 2: "estimateDurationFromFileSize unreadable ''/audio/a.mp3'' (1 / 2) = \<lfloor>(1 / 2 :: real) * 240000\<rfloor> + 60000"
    by blast
  from a b u 1 2 show ?thesis by simp
qed

text \<open>
  C8 as stated includes a file whose size cannot be read. Two runs on such a file
  differ when the two draws differ: 60000 ms for a draw of 0, 180000 ms for 0.5.
\<close>

theorem estimateDurationFromFileSize_unreadable_counterexample:
  "estimateDurationFromFileSize unreadable ''/audio/a.mp3'' 0 = 60000 \<and>
   estimateDurationFromFileSize unreadable ''/audio/a.mp3'' (1 / 2) = 180000"
  by (simp add: estimateDurationFromFileSize_def unreadable_def)

end
